theory Spec2Isabelle
  imports Main "HOL-Library.Char_ord" "HOL-Library.List_Lexorder"
begin

section \<open>Python values and strings\<close>

text \<open>
  The three scripts are Python. A Python \<open>str\<close> is modelled as a \<open>string\<close> whose
  characters are the code points below 256; the exceptions the scripts can raise and do
  not catch are values of \<open>py_exn\<close>. A value decoded by \<open>json.loads\<close> is a \<open>json\<close>:
  \<open>None\<close>, a bool, an int, a float, a str, a list or a dict (an association list, looked
  up with \<open>map_of\<close>).
\<close>

datatype py_exn = AttributeError | TypeError | ReadError | RecursionError | ValueError

text \<open>
  A float is the finite value \<open>m * 2 ^ e\<close>, an infinity or a NaN (\<open>json.loads\<close> accepts
  \<open>Infinity\<close> and \<open>NaN\<close>). The validators only test a number for truth.
\<close>

datatype pyfloat = Finite int int | Infinite bool | NaN

datatype json =
    JNull
  | JBool bool
  | JInt int
  | JFloat pyfloat
  | JStr string
  | JArr "json list"
  | JObj "(string \<times> json) list"

fun float_truthy :: "pyfloat \<Rightarrow> bool" where
  "float_truthy (Finite m e) = (m \<noteq> 0)"
| "float_truthy (Infinite s) = True"
| "float_truthy NaN = True"

text \<open>Python's truth value of an object: what \<open>if x\<close> and \<open>not x\<close> test.\<close>

fun truthy :: "json \<Rightarrow> bool" where
  "truthy JNull = False"
| "truthy (JBool b) = b"
| "truthy (JInt i) = (i \<noteq> 0)"
| "truthy (JFloat f) = float_truthy f"
| "truthy (JStr s) = (s \<noteq> [])"
| "truthy (JArr xs) = (xs \<noteq> [])"
| "truthy (JObj kvs) = (kvs \<noteq> [])"

definition py_not :: "json \<Rightarrow> bool" where
  "py_not v = (\<not> truthy v)"

text \<open>\<open>x in s\<close> for a set \<open>s\<close> hashes \<open>x\<close> first: a list or a dict raises TypeError.\<close>

fun hashable :: "json \<Rightarrow> bool" where
  "hashable (JArr xs) = False"
| "hashable (JObj kvs) = False"
| "hashable v = True"

text \<open>Membership of a hashable value in a set of strings: only an equal str is in it.\<close>

fun in_strs :: "json \<Rightarrow> string list \<Rightarrow> bool" where
  "in_strs (JStr s) S = (s \<in> set S)"
| "in_strs v S = False"

text \<open>\<open>d.get(k)\<close> and \<open>d.get(k, default)\<close>.\<close>

definition get :: "(string \<times> json) list \<Rightarrow> string \<Rightarrow> json" where
  "get d k = (case map_of d k of None \<Rightarrow> JNull | Some v \<Rightarrow> v)"

definition get_default :: "(string \<times> json) list \<Rightarrow> string \<Rightarrow> json \<Rightarrow> json" where
  "get_default d k dflt = (case map_of d k of None \<Rightarrow> dflt | Some v \<Rightarrow> v)"

definition keys :: "(string \<times> json) list \<Rightarrow> string list" where
  "keys d = remdups (map fst d)"

text \<open>
  \<open>str.lower()\<close> on code points below 256: \<open>A\<close>..\<open>Z\<close> and the Latin-1 capitals
  (192..222 but the multiplication sign 215) move up by 32.
\<close>

definition lower_char :: "char \<Rightarrow> char" where
  "lower_char c =
     (let n = (of_char c :: nat) in
      if (65 \<le> n \<and> n \<le> 90) \<or> (192 \<le> n \<and> n \<le> 222 \<and> n \<noteq> 215)
      then char_of (n + 32) else c)"

definition py_lower :: "string \<Rightarrow> string" where
  "py_lower s = map lower_char s"

text \<open>
  \<open>str.isspace()\<close> of one character, which is also what \<open>\s\<close> matches in a str pattern:
  tab, line feed, vertical tab, form feed, carriage return, the separators 28..31, the
  space, NEL (133) and the no-break space (160).
\<close>

definition is_space :: "char \<Rightarrow> bool" where
  "is_space c =
     (let n = (of_char c :: nat) in
      (9 \<le> n \<and> n \<le> 13) \<or> (28 \<le> n \<and> n \<le> 32) \<or> n = 133 \<or> n = 160)"

definition py_strip :: "string \<Rightarrow> string" where
  "py_strip s = rev (dropWhile is_space (rev (dropWhile is_space s)))"

text \<open>\<open>s.startswith(p)\<close>, \<open>s.endswith(p)\<close> and \<open>sub in s\<close>.\<close>

fun startswith :: "string \<Rightarrow> string \<Rightarrow> bool" where
  "startswith s [] = True"
| "startswith [] (p # ps) = False"
| "startswith (c # cs) (p # ps) = (c = p \<and> startswith cs ps)"

definition endswith :: "string \<Rightarrow> string \<Rightarrow> bool" where
  "endswith s p = startswith (rev s) (rev p)"

fun contains :: "string \<Rightarrow> string \<Rightarrow> bool" where
  "contains [] sub = (sub = [])"
| "contains (c # cs) sub = (startswith (c # cs) sub \<or> contains cs sub)"

section \<open>The capability-descriptor validator (validate-capabilities.py)\<close>

definition VALID_BROWSERS :: "string list" where
  "VALID_BROWSERS =
     [''Chrome'', ''MicrosoftEdge'', ''pw-chromium'', ''pw-firefox'', ''pw-webkit'',
      ''Firefox'', ''Safari'']"

definition VALID_PLATFORMS :: "string list" where
  "VALID_PLATFORMS =
     [''Windows 11'', ''Windows 10'',
      ''macOS Sequoia'', ''macOS Sonoma'', ''macOS Ventura'',
      ''macOS Monterey'', ''macOS Big Sur'', ''macOS Catalina'']"

definition VALID_MOBILE_PLATFORMS :: "string list" where
  "VALID_MOBILE_PLATFORMS = [''android'', ''ios'']"

definition VALID_LT_OPTIONS :: "string list" where
  "VALID_LT_OPTIONS =
     [''platform'', ''build'', ''name'', ''user'', ''accessKey'',
      ''network'', ''video'', ''console'', ''tunnel'', ''tunnelName'',
      ''geoLocation'', ''resolution'', ''playwrightClientVersion'',
      ''platformName'', ''deviceName'', ''platformVersion'',
      ''isRealMobile'', ''isPwMobileWebviewTest'']"

text \<open>
  The findings. Each constructor stands for one message of the script, with the values
  the message is formatted from:
  \<^item> \<open>MissingBrowserName\<close>: "Missing 'browserName'. Valid: ..."
  \<^item> \<open>InvalidBrowserName b\<close>: "Invalid browserName 'b'. Valid: ..."
  \<^item> \<open>MissingLTOptions\<close>: "Missing 'LT:Options' object"
  \<^item> \<open>MissingUser\<close>: "Missing LT:Options.user \<emdash> set LT_USERNAME env var"
  \<^item> \<open>MissingAccessKey\<close>: "Missing LT:Options.accessKey \<emdash> set LT_ACCESS_KEY env var"
  \<^item> \<open>MobileRequiresDeviceName\<close>: "Mobile test requires 'deviceName' (e.g., 'Pixel 7', 'iPhone 16')"
  \<^item> \<open>MobileRequiresPlatformVersion\<close>: "Mobile test requires 'platformVersion' (e.g., '14', '18')"
  \<^item> \<open>IosMustUseWebkit b\<close>: "iOS MUST use webkit/pw-webkit browser, not 'b'"
  \<^item> \<open>DesktopRequiresPlatform\<close>: "Desktop test requires LT:Options.platform (e.g., 'Windows 11')"
  \<^item> \<open>InvalidPlatform p\<close>: "Invalid platform 'p'. Valid: ..."
  \<^item> \<open>UnknownLTOptionsKeys ks\<close>: "Unknown LT:Options keys (may be ignored): " and \<open>ks\<close>
    joined by ", " in the order of the list
  \<^item> \<open>IsRealMobileNotSet\<close>: "isRealMobile not set \<emdash> add isRealMobile: true for real device testing"
  \<^item> \<open>ConsiderBuild\<close>, \<open>ConsiderVideo\<close>, \<open>ConsiderNetwork\<close>: "Consider adding ..."
\<close>

datatype caps_error =
    MissingBrowserName
  | InvalidBrowserName json
  | MissingLTOptions
  | MissingUser
  | MissingAccessKey
  | MobileRequiresDeviceName
  | MobileRequiresPlatformVersion
  | IosMustUseWebkit string
  | DesktopRequiresPlatform
  | InvalidPlatform json

datatype caps_warning =
    UnknownLTOptionsKeys "string list"
  | IsRealMobileNotSet
  | ConsiderBuild
  | ConsiderVideo
  | ConsiderNetwork

text \<open>The \<open>browserName\<close> rule (lines 39 to 43): the errors it appends, or the TypeError of
  \<open>browser not in VALID_BROWSERS\<close> on an unhashable value.\<close>

definition check_browser :: "json \<Rightarrow> py_exn + caps_error list" where
  "check_browser browser =
     (if py_not browser then Inr [MissingBrowserName]
      else if \<not> hashable browser then Inl TypeError
      else if \<not> in_strs browser VALID_BROWSERS then Inr [InvalidBrowserName browser]
      else Inr [])"

text \<open>
  The unknown-keys rule (lines 52 to 54). \<open>unknown\<close> is a Python set of strings; the
  message joins it in the set's iteration order, which follows the strings' hashes, and
  those are salted anew in every process. The order is therefore an input of the run:
  \<open>set_iter\<close> maps the members of the set to the order in which this process iterates.
\<close>

definition check_unknown_keys ::
  "(string list \<Rightarrow> string list) \<Rightarrow> (string \<times> json) list \<Rightarrow> caps_warning list" where
  "check_unknown_keys set_iter lt =
     (let unknown = filter (\<lambda>k. k \<notin> set VALID_LT_OPTIONS) (keys lt) in
      if unknown \<noteq> [] then [UnknownLTOptionsKeys (set_iter unknown)] else [])"

text \<open>The auth rules (lines 57 to 62).\<close>

definition check_auth :: "(string \<times> json) list \<Rightarrow> caps_error list" where
  "check_auth lt =
     (let user = get_default lt ''user'' (JStr '''');
          key = get_default lt ''accessKey'' (JStr '''') in
      (if py_not user \<or> user = JStr ''None'' then [MissingUser] else []) @
      (if py_not key \<or> key = JStr ''None'' then [MissingAccessKey] else []))"

text \<open>The mobile branch (lines 68 to 75); \<open>browser.lower()\<close> raises AttributeError on a
  true value that is not a str.\<close>

definition check_mobile ::
  "string \<Rightarrow> json \<Rightarrow> (string \<times> json) list \<Rightarrow> py_exn + (caps_error list \<times> caps_warning list)" where
  "check_mobile platform_name browser lt =
     (let errors = (if py_not (get lt ''deviceName'') then [MobileRequiresDeviceName] else []) @
                   (if py_not (get lt ''platformVersion'') then [MobileRequiresPlatformVersion] else []);
          warnings = (if py_not (get lt ''isRealMobile'') then [IsRealMobileNotSet] else []) in
      if platform_name = ''ios'' \<and> truthy browser then
        (case browser of
           JStr b \<Rightarrow>
             if py_lower b \<noteq> ''pw-webkit'' \<and> py_lower b \<noteq> ''webkit''
             then Inr (errors @ [IosMustUseWebkit b], warnings)
             else Inr (errors, warnings)
         | _ \<Rightarrow> Inl AttributeError)
      else Inr (errors, warnings))"

text \<open>The desktop branch (lines 78 to 82).\<close>

definition check_desktop :: "(string \<times> json) list \<Rightarrow> py_exn + caps_error list" where
  "check_desktop lt =
     (let platform = get lt ''platform'' in
      if py_not platform then Inr [DesktopRequiresPlatform]
      else if \<not> hashable platform then Inl TypeError
      else if \<not> in_strs platform VALID_PLATFORMS then Inr [InvalidPlatform platform]
      else Inr [])"

text \<open>The recommendations (lines 85 to 90).\<close>

definition check_recommendations :: "(string \<times> json) list \<Rightarrow> caps_warning list" where
  "check_recommendations lt =
     (if py_not (get lt ''build'') then [ConsiderBuild] else []) @
     (if py_not (get lt ''video'') then [ConsiderVideo] else []) @
     (if py_not (get lt ''network'') then [ConsiderNetwork] else [])"

text \<open>
  \<open>validate(caps)\<close>: the errors it returns and the warnings it prints (it prints them last,
  so a run that raises or returns early prints none), or the exception it raises.
  \<open>caps.get\<close>, \<open>lt.keys()\<close> and \<open>.lower()\<close> raise AttributeError on a value of another type.
\<close>

definition validate ::
  "(string list \<Rightarrow> string list) \<Rightarrow> json \<Rightarrow> py_exn + (caps_error list \<times> caps_warning list)" where
  "validate set_iter caps =
     (case caps of
        JObj c \<Rightarrow>
          (let browser = get c ''browserName'' in
           case check_browser browser of
             Inl e \<Rightarrow> Inl e
           | Inr errors0 \<Rightarrow>
               (let lt = get_default c ''LT:Options'' (JObj []) in
                if py_not lt then Inr (errors0 @ [MissingLTOptions], [])
                else
                  (case lt of
                     JObj l \<Rightarrow>
                       (let warnings1 = check_unknown_keys set_iter l;
                            errors1 = errors0 @ check_auth l in
                        case get_default l ''platformName'' (JStr '''') of
                          JStr p \<Rightarrow>
                            (let platform_name = py_lower p in
                             if platform_name \<in> set VALID_MOBILE_PLATFORMS then
                               (case check_mobile platform_name browser l of
                                  Inl e \<Rightarrow> Inl e
                                | Inr (errors2, warnings2) \<Rightarrow>
                                    Inr (errors1 @ errors2,
                                         warnings1 @ warnings2 @ check_recommendations l))
                             else
                               (case check_desktop l of
                                  Inl e \<Rightarrow> Inl e
                                | Inr errors2 \<Rightarrow>
                                    Inr (errors1 @ errors2,
                                         warnings1 @ check_recommendations l)))
                        | _ \<Rightarrow> Inl AttributeError)
                   | _ \<Rightarrow> Inl AttributeError)))
      | _ \<Rightarrow> Inl AttributeError)"


text \<open>
  What a script writes, line by line: its banners, the findings it shows and, for an
  exception nobody catches, the interpreter's traceback (the process then ends with
  status 1).
\<close>

datatype ('e, 'w) line =
    UsageLine
  | ParseFailureLine
  | FileNotFoundLine string
  | BannerLine
  | SkillsFoundLine nat
  | WarningCountLine nat
  | WarningLine 'w
  | ErrorCountLine nat
  | ErrorLine 'e
  | ValidLine
  | FailedLine
  | TracebackLine py_exn

fun error_findings :: "('e, 'w) line list \<Rightarrow> 'e list" where
  "error_findings [] = []"
| "error_findings (ErrorLine e # ls) = e # error_findings ls"
| "error_findings (l # ls) = error_findings ls"

fun warning_findings :: "('e, 'w) line list \<Rightarrow> 'w list" where
  "warning_findings [] = []"
| "warning_findings (WarningLine w # ls) = w # warning_findings ls"
| "warning_findings (l # ls) = warning_findings ls"

text \<open>What \<open>open(path).read()\<close> gives: FileNotFoundError, another uncaught failure
  (a directory, no permission, bytes that do not decode), or the text.\<close>

datatype file_read = FileNotFound | Unreadable | FileText string

text \<open>Lines 115 to 124 of \<open>main\<close>: validate the loaded descriptor, report, exit.\<close>

definition report_caps ::
  "(string list \<Rightarrow> string list) \<Rightarrow> json \<Rightarrow> int \<times> (caps_error, caps_warning) line list" where
  "report_caps set_iter caps =
     (case validate set_iter caps of
        Inl e \<Rightarrow> (1, [TracebackLine e])
      | Inr (errors, warnings) \<Rightarrow>
          if errors \<noteq> [] then
            (1, map WarningLine warnings @ [ErrorCountLine (length errors)] @ map ErrorLine errors)
          else (0, map WarningLine warnings @ [ValidLine]))"

text \<open>
  What \<open>json.loads\<close> does with a text: it returns the decoded value, raises
  JSONDecodeError, or raises another exception (RecursionError on a text nested too
  deep, ValueError on an integer literal past the interpreter's digit limit).
\<close>

datatype parsed = Parsed json | JSONDecodeError | ParseRaises py_exn

text \<open>
  \<open>main\<close> of validate-capabilities.py. \<open>argv\<close> is \<open>sys.argv\<close>, \<open>fs\<close> the file system and
  \<open>json_loads\<close> the library's parser. \<open>sys.argv[2]\<close> raises IndexError when \<open>--inline\<close>
  is the last argument. IndexError, FileNotFoundError and JSONDecodeError are the three
  exceptions \<open>main\<close> catches (line 111); any other exception of the parser, and any
  other failure of opening or reading the file (\<open>json.load\<close> reads it: a directory, no
  permission, bytes that do not decode), ends the process with a traceback and status 1.
\<close>

definition main_caps ::
  "(string list \<Rightarrow> string list) \<Rightarrow> (string \<Rightarrow> parsed) \<Rightarrow> (string \<Rightarrow> file_read) \<Rightarrow> string list
     \<Rightarrow> int \<times> (caps_error, caps_warning) line list" where
  "main_caps set_iter json_loads fs argv =
     (if length argv < 2 then (2, [UsageLine])
      else if argv ! 1 = ''--inline'' then
        (if length argv < 3 then (2, [ParseFailureLine])
         else
           (case json_loads (argv ! 2) of
              JSONDecodeError \<Rightarrow> (2, [ParseFailureLine])
            | ParseRaises e \<Rightarrow> (1, [TracebackLine e])
            | Parsed caps \<Rightarrow> report_caps set_iter caps))
      else
        (case fs (argv ! 1) of
           FileNotFound \<Rightarrow> (2, [ParseFailureLine])
         | Unreadable \<Rightarrow> (1, [TracebackLine ReadError])
         | FileText t \<Rightarrow>
             (case json_loads t of
                JSONDecodeError \<Rightarrow> (2, [ParseFailureLine])
              | ParseRaises e \<Rightarrow> (1, [TracebackLine e])
              | Parsed caps \<Rightarrow> report_caps set_iter caps)))"

section \<open>The configuration-file validator (validate-config.py)\<close>

text \<open>
  The findings:
  \<^item> \<open>WaitForTimeoutFound\<close>: "Found 'waitForTimeout' in config \<emdash> this is an anti-pattern. ..."
  \<^item> \<open>BadCloudProject proj n\<close>: "Cloud project 'proj' should follow format
    'browserName:version:platform@lambdatest'. Got n parts, expected 3"
  \<^item> the warnings: "Not using defineConfig() ...", "No testDir specified ...", "No timeout
    configured ...", "No retries configured ...", "No projects defined ...", "No trace
    configured ...", "No reporter configured ...", "No baseURL ...", "No webServer ...",
    "Cloud projects found but LT_USERNAME not referenced in config. ..."
\<close>

datatype config_error = WaitForTimeoutFound | BadCloudProject string nat

datatype config_warning =
    NoDefineConfig | NoTestDir | NoTimeout | NoRetries | NoProjects
  | NoTrace | NoReporter | NoBaseURL | NoWebServer | LTUsernameNotReferenced

definition is_quote :: "char \<Rightarrow> bool" where
  "is_quote c = (c = CHR 0x27 \<or> c = CHR 0x22)"

text \<open>
  One attempt of the pattern \<open>name:\s*['"]([^'"]*@lambdatest)['"]\<close> at the start of \<open>t\<close>:
  the group and the length of the match. After \<open>name:\<close> the greedy \<open>\s*\<close> must take all
  the white space (a quote has to follow, and white space is no quote). After the opening
  quote the group is made of characters that are no quotes and a quote follows it, so it
  is the whole run of such characters up to the next quote; the attempt matches when that
  run ends with \<open>@lambdatest\<close> and the closing quote is there.
\<close>

definition match_project :: "string \<Rightarrow> (string \<times> nat) option" where
  "match_project t =
     (if startswith t ''name:'' then
        (let ws = takeWhile is_space (drop 5 t);
             r = dropWhile is_space (drop 5 t) in
         case r of
           [] \<Rightarrow> None
         | q # r' \<Rightarrow>
             if is_quote q then
               (let run = takeWhile (\<lambda>c. \<not> is_quote c) r';
                    closing = dropWhile (\<lambda>c. \<not> is_quote c) r' in
                if endswith run ''@lambdatest'' \<and> closing \<noteq> []
                then Some (run, 5 + length ws + 1 + length run + 1)
                else None)
             else None)
      else None)"

text \<open>\<open>re.findall\<close>: the groups of the matches, left to right; the scan goes on after a
  match, and one character further where there is none.\<close>

fun findall_projects :: "string \<Rightarrow> string list" where
  "findall_projects [] = []"
| "findall_projects (c # cs) =
     (case match_project (c # cs) of
        None \<Rightarrow> findall_projects cs
      | Some (g, n) \<Rightarrow> g # findall_projects (drop (n - 1) cs))"

text \<open>\<open>s.split(sep)[0]\<close>: the text before the first \<open>sep\<close>, all of \<open>s\<close> when there is none.\<close>

fun before_first :: "string \<Rightarrow> string \<Rightarrow> string" where
  "before_first [] sep = []"
| "before_first (c # cs) sep =
     (if startswith (c # cs) sep then [] else c # before_first cs sep)"

text \<open>\<open>s.split(c)\<close> for a separator of one character.\<close>

fun split_char :: "char \<Rightarrow> string \<Rightarrow> string list" where
  "split_char sep [] = [[]]"
| "split_char sep (c # cs) =
     (if c = sep then [] # split_char sep cs
      else (case split_char sep cs of
              [] \<Rightarrow> [[c]]
            | p # ps \<Rightarrow> (c # p) # ps))"

text \<open>Lines 45 to 51: the loop over the cloud projects.\<close>

fun check_cloud_projects :: "string list \<Rightarrow> config_error list" where
  "check_cloud_projects [] = []"
| "check_cloud_projects (proj # cloud_projects) =
     (let parts = split_char (CHR '':'') (before_first proj ''@lambdatest'') in
      (if length parts < 3 then [BadCloudProject proj (length parts)] else [])
      @ check_cloud_projects cloud_projects)"

text \<open>\<open>validate(content)\<close>: the two lists it returns, each in the order of its appends.\<close>

definition validate_config :: "string \<Rightarrow> config_error list \<times> config_warning list" where
  "validate_config content =
     ((if contains content ''waitForTimeout'' then [WaitForTimeoutFound] else []) @
      check_cloud_projects (findall_projects content),
      (if \<not> contains content ''defineConfig'' then [NoDefineConfig] else []) @
      (if \<not> contains content ''testDir'' then [NoTestDir] else []) @
      (if \<not> contains content ''timeout'' then [NoTimeout] else []) @
      (if \<not> contains content ''retries'' then [NoRetries] else []) @
      (if \<not> contains content ''projects'' then [NoProjects] else []) @
      (if \<not> contains content ''trace'' then [NoTrace] else []) @
      (if \<not> contains content ''reporter'' then [NoReporter] else []) @
      (if \<not> contains content ''baseURL'' then [NoBaseURL] else []) @
      (if \<not> contains content ''webServer'' then [NoWebServer] else []) @
      (if contains content ''@lambdatest'' then
         (if \<not> contains content ''LT_USERNAME'' \<and> \<not> contains content ''lambdatest-setup''
          then [LTUsernameNotReferenced] else [])
       else []))"

text \<open>Lines 87 to 101 of \<open>main\<close>.\<close>

definition report_config :: "string \<Rightarrow> int \<times> (config_error, config_warning) line list" where
  "report_config content =
     (case validate_config content of
        (errors, warnings) \<Rightarrow>
          (if errors \<noteq> [] then 1 else 0,
           (if warnings \<noteq> [] then WarningCountLine (length warnings) # map WarningLine warnings
            else []) @
           (if errors \<noteq> [] then ErrorCountLine (length errors) # map ErrorLine errors
            else [ValidLine])))"

definition config_path :: "string list \<Rightarrow> string" where
  "config_path argv = (if length argv > 1 then argv ! 1 else ''playwright.config.ts'')"

definition main_config ::
  "(string \<Rightarrow> file_read) \<Rightarrow> string list \<Rightarrow> int \<times> (config_error, config_warning) line list" where
  "main_config fs argv =
     (case fs (config_path argv) of
        FileNotFound \<Rightarrow> (2, [FileNotFoundLine (config_path argv)])
      | Unreadable \<Rightarrow> (1, [TracebackLine ReadError])
      | FileText content \<Rightarrow> report_config content)"

section \<open>The skill-directory validator (validate_skills.py)\<close>

definition SKIP_DIRS :: "string list" where
  "SKIP_DIRS = [''evals'', ''shared'', ''.git'', ''scripts'', ''docs'', ''__pycache__'']"

definition MAX_SKILL_LINES :: nat where
  "MAX_SKILL_LINES = 500"

definition VALID_CATEGORIES :: "string list" where
  "VALID_CATEGORIES =
     [''accessibility'', ''api-testing'', ''bdd-testing'', ''cloud-testing'',
      ''devops'', ''e2e-testing'', ''mobile-testing'', ''performance-testing'',
      ''security-testing'', ''unit-testing'', ''visual-testing'']"

text \<open>
  The findings; each message starts with the directory's name and a colon:
  \<^item> \<open>MissingSkillMd d\<close>: "d: Missing SKILL.md"
  \<^item> \<open>TooManyLines d n\<close>: "d: SKILL.md is n lines (max 500)"
  \<^item> \<open>MissingOpeningFrontmatter d\<close>, \<open>MissingClosingFrontmatter d\<close>: "d: Missing opening
    --- in frontmatter", "d: Missing closing --- in frontmatter"
  \<^item> \<open>MissingName d\<close>, \<open>MissingDescription d\<close>: "d: Missing 'name' in frontmatter", ...
  \<^item> \<open>MissingLanguages d\<close>, \<open>MissingCategory d\<close>: the same for 'languages' and 'category'
  \<^item> \<open>UnknownCategory d c\<close>: "d: Unknown category 'c'"
  \<^item> \<open>NoReferenceDir d\<close>: "d: No reference/ directory"
  \<^item> \<open>NoPlaybook d\<close>: "d: No reference/playbook.md"
  \<^item> \<open>NoPlaybookReference d\<close>: "d: SKILL.md doesn't reference playbook.md"
\<close>

datatype skill_error =
    MissingSkillMd string
  | TooManyLines string nat
  | MissingOpeningFrontmatter string
  | MissingClosingFrontmatter string
  | MissingName string
  | MissingDescription string

datatype skill_warning =
    MissingLanguages string
  | MissingCategory string
  | UnknownCategory string string
  | NoReferenceDir string
  | NoPlaybook string
  | NoPlaybookReference string

text \<open>The directory a finding is about.\<close>

fun error_dir :: "skill_error \<Rightarrow> string" where
  "error_dir (MissingSkillMd d) = d"
| "error_dir (TooManyLines d n) = d"
| "error_dir (MissingOpeningFrontmatter d) = d"
| "error_dir (MissingClosingFrontmatter d) = d"
| "error_dir (MissingName d) = d"
| "error_dir (MissingDescription d) = d"

fun warning_dir :: "skill_warning \<Rightarrow> string" where
  "warning_dir (MissingLanguages d) = d"
| "warning_dir (MissingCategory d) = d"
| "warning_dir (UnknownCategory d c) = d"
| "warning_dir (NoReferenceDir d) = d"
| "warning_dir (NoPlaybook d) = d"
| "warning_dir (NoPlaybookReference d) = d"

text \<open>The module's three globals, threaded through the calls.\<close>

record state =
  errors :: "skill_error list"
  warnings :: "skill_warning list"
  skills_found :: nat

definition add_error :: "skill_error \<Rightarrow> state \<Rightarrow> state" where
  "add_error e st = st\<lparr>errors := errors st @ [e]\<rparr>"

definition add_warning :: "skill_warning \<Rightarrow> state \<Rightarrow> state" where
  "add_warning w st = st\<lparr>warnings := warnings st @ [w]\<rparr>"

text \<open>
  What the script sees of the repository: the names \<open>os.listdir(REPO_ROOT)\<close> returns
  and, for a name \<open>d\<close>, whether \<open>d\<close> is a directory, what reading \<open>d/SKILL.md\<close> gives
  (\<open>os.path.exists\<close> is false exactly for \<open>FileNotFound\<close>), whether \<open>d/reference\<close> is a
  directory and whether \<open>d/reference/playbook.md\<close> exists.
\<close>

record repo =
  listdir :: "string list"
  isdir :: "string \<Rightarrow> bool"
  skill_md :: "string \<Rightarrow> file_read"
  reference_isdir :: "string \<Rightarrow> bool"
  playbook_exists :: "string \<Rightarrow> bool"

text \<open>\<open>s.find(sub, start)\<close>, \<open>None\<close> for -1.\<close>

fun find_idx :: "string \<Rightarrow> string \<Rightarrow> nat option" where
  "find_idx [] sub = (if sub = [] then Some 0 else None)"
| "find_idx (c # cs) sub =
     (if startswith (c # cs) sub then Some 0 else map_option Suc (find_idx cs sub))"

definition py_find :: "string \<Rightarrow> string \<Rightarrow> nat \<Rightarrow> nat option" where
  "py_find s sub start =
     (if start \<le> length s then map_option (\<lambda>i. start + i) (find_idx (drop start s) sub)
      else None)"

text \<open>
  With \<open>re.MULTILINE\<close>, \<open>^\<close> matches at the start of the string and right after every
  line feed. \<open>line_starts s\<close> lists the rests of \<open>s\<close> at these places, left to right.
\<close>

fun after_newlines :: "string \<Rightarrow> string list" where
  "after_newlines [] = []"
| "after_newlines (c # cs) =
     (if c = CHR 0x0A then cs # after_newlines cs else after_newlines cs)"

definition line_starts :: "string \<Rightarrow> string list" where
  "line_starts s = s # after_newlines s"

text \<open>\<open>re.search(r'^key', fm, re.MULTILINE)\<close> finds a match.\<close>

definition search_key :: "string \<Rightarrow> string \<Rightarrow> bool" where
  "search_key key fm = list_ex (\<lambda>t. startswith t key) (line_starts fm)"

text \<open>
  \<open>\s*(.+)\<close> matched at the start of \<open>t\<close>, with the group it captures. \<open>\s*\<close> is greedy:
  on a white-space character it first goes on, and only when nothing matches further
  right does \<open>.+\<close> start here, which it can on any character but a line feed; \<open>.+\<close> then
  runs to the end of the line.
\<close>

fun cat_value :: "string \<Rightarrow> string option" where
  "cat_value [] = None"
| "cat_value (c # cs) =
     (if is_space c then
        (case cat_value cs of
           Some g \<Rightarrow> Some g
         | None \<Rightarrow>
             if c \<noteq> CHR 0x0A then Some (takeWhile (\<lambda>x. x \<noteq> CHR 0x0A) (c # cs)) else None)
      else Some (takeWhile (\<lambda>x. x \<noteq> CHR 0x0A) (c # cs)))"

text \<open>\<open>re.search(r'^category:\s*(.+)', fm, re.MULTILINE)\<close>: group 1 of the leftmost match.\<close>

definition search_category :: "string \<Rightarrow> string option" where
  "search_category fm =
     (case List.map_filter
             (\<lambda>t. if startswith t ''category:'' then cat_value (drop 9 t) else None)
             (line_starts fm) of
        [] \<Rightarrow> None
      | g # gs \<Rightarrow> Some g)"

definition validate_frontmatter :: "string \<Rightarrow> string \<Rightarrow> state \<Rightarrow> bool \<times> state" where
  "validate_frontmatter skill_dir content st =
     (if \<not> startswith content (''---'' @ [CHR 0x0A]) then
        (False, add_error (MissingOpeningFrontmatter skill_dir) st)
      else
        (case (case py_find content ([CHR 0x0A] @ ''---'' @ [CHR 0x0A]) 3 of
                 None \<Rightarrow> py_find content ([CHR 0x0A] @ ''---'') 3
               | Some i \<Rightarrow> Some i) of
           None \<Rightarrow> (False, add_error (MissingClosingFrontmatter skill_dir) st)
         | Some fm_end \<Rightarrow>
             (let fm = take (fm_end - 4) (drop 4 content);
                  st1 = (if \<not> search_key ''name:'' fm
                         then add_error (MissingName skill_dir) st else st);
                  st2 = (if \<not> search_key ''description:'' fm
                         then add_error (MissingDescription skill_dir) st1 else st1);
                  st3 = (if \<not> search_key ''languages:'' fm
                         then add_warning (MissingLanguages skill_dir) st2 else st2);
                  st4 = (if \<not> search_key ''category:'' fm
                         then add_warning (MissingCategory skill_dir) st3
                         else
                           (case search_category fm of
                              None \<Rightarrow> st3
                            | Some g \<Rightarrow>
                                if py_strip g \<notin> set VALID_CATEGORIES
                                then add_warning (UnknownCategory skill_dir (py_strip g)) st3
                                else st3))
              in (True, st4))))"

text \<open>\<open>validate_skill(skill_dir)\<close>; \<open>open(skill_md)\<close> raises when the file is there but
  cannot be read.\<close>

definition validate_skill :: "repo \<Rightarrow> string \<Rightarrow> state \<Rightarrow> py_exn + state" where
  "validate_skill r skill_dir st =
     (case skill_md r skill_dir of
        FileNotFound \<Rightarrow> Inr (add_error (MissingSkillMd skill_dir) st)
      | Unreadable \<Rightarrow> Inl ReadError
      | FileText content \<Rightarrow>
          (let st1 = st\<lparr>skills_found := skills_found st + 1\<rparr>;
               lines = length (split_char (CHR 0x0A) content);
               st2 = (if lines > MAX_SKILL_LINES
                      then add_error (TooManyLines skill_dir lines) st1 else st1);
               st3 = snd (validate_frontmatter skill_dir content st2);
               st4 = (if \<not> reference_isdir r skill_dir
                      then add_warning (NoReferenceDir skill_dir) st3
                      else if \<not> playbook_exists r skill_dir
                      then add_warning (NoPlaybook skill_dir) st3
                      else st3);
               st5 = (if \<not> contains content ''reference/'' \<and> \<not> contains content ''playbook.md''
                      then add_warning (NoPlaybookReference skill_dir) st4 else st4)
           in Inr st5))"

text \<open>The directories \<open>main\<close> looks at (line 99).\<close>

definition scanned :: "repo \<Rightarrow> string \<Rightarrow> bool" where
  "scanned r item = (isdir r item \<and> item \<notin> set SKIP_DIRS \<and> \<not> startswith item ''.'')"

text \<open>The loop of \<open>main\<close> (lines 97 to 101) over the sorted names.\<close>

fun scan :: "repo \<Rightarrow> string list \<Rightarrow> state \<Rightarrow> py_exn + state" where
  "scan r [] st = Inr st"
| "scan r (item # items) st =
     (if scanned r item then
        (if skill_md r item \<noteq> FileNotFound then
           (case validate_skill r item st of
              Inl e \<Rightarrow> Inl e
            | Inr st' \<Rightarrow> scan r items st')
         else scan r items st)
      else scan r items st)"

definition initial :: state where
  "initial = \<lparr>errors = [], warnings = [], skills_found = 0\<rparr>"

definition main_skills :: "repo \<Rightarrow> int \<times> (skill_error, skill_warning) line list" where
  "main_skills r =
     (case scan r (sort (listdir r)) initial of
        Inl e \<Rightarrow> (1, [BannerLine, TracebackLine e])
      | Inr st \<Rightarrow>
          (if errors st = [] then 0 else 1,
           [BannerLine, SkillsFoundLine (skills_found st),
            ErrorCountLine (length (errors st)), WarningCountLine (length (warnings st))] @
           map ErrorLine (errors st) @
           map WarningLine (warnings st) @
           [if errors st = [] then ValidLine else FailedLine]))"

section \<open>Inputs the properties are checked on\<close>

text \<open>The two descriptors of the specification's testable properties.\<close>

definition ios_webkit_caps :: json where
  "ios_webkit_caps =
     JObj [(''browserName'', JStr ''pw-webkit''),
           (''LT:Options'',
            JObj [(''platformName'', JStr ''ios''), (''user'', JStr ''u''),
                  (''accessKey'', JStr ''k''), (''deviceName'', JStr ''iPhone 16''),
                  (''platformVersion'', JStr ''18'')])]"

definition ios_chrome_caps :: json where
  "ios_chrome_caps =
     JObj [(''browserName'', JStr ''Chrome''),
           (''LT:Options'',
            JObj [(''platformName'', JStr ''ios''), (''user'', JStr ''u''),
                  (''accessKey'', JStr ''k'')])]"

text \<open>A valid desktop descriptor with two option keys the script does not know.\<close>

definition two_unknown_caps :: json where
  "two_unknown_caps =
     JObj [(''browserName'', JStr ''Chrome''),
           (''LT:Options'',
            JObj [(''user'', JStr ''u''), (''accessKey'', JStr ''k''),
                  (''platform'', JStr ''Windows 11''),
                  (''foo'', JInt 1), (''bar'', JInt 2)])]"

text \<open>A configuration file with one cloud project whose name has four parts:
  \<^verbatim>\<open>name: "chrome:120:Windows:11@lambdatest"\<close>.\<close>

definition four_part_config :: string where
  "four_part_config =
     ''name: '' @ [CHR 0x22] @ ''chrome:120:Windows:11@lambdatest'' @ [CHR 0x22]"

text \<open>Descriptors on which a rule raises: a browser name that is a list, one that is a
  dict beside a null \<open>LT:Options\<close>, one that is \<open>true\<close> on iOS, and a platform name that
  is a number.\<close>

definition array_browser_caps :: json where
  "array_browser_caps = JObj [(''browserName'', JArr [JStr ''Chrome''])]"

definition null_options_caps :: json where
  "null_options_caps =
     JObj [(''browserName'', JObj [(''name'', JStr ''Chrome'')]), (''LT:Options'', JNull)]"

definition ios_bool_browser_caps :: json where
  "ios_bool_browser_caps =
     JObj [(''browserName'', JBool True),
           (''LT:Options'',
            JObj [(''platformName'', JStr ''iOS''), (''user'', JStr ''u''),
                  (''accessKey'', JStr ''k'')])]"

definition number_platform_caps :: json where
  "number_platform_caps =
     JObj [(''browserName'', JStr ''Chrome''),
           (''LT:Options'',
            JObj [(''user'', JStr ''u''), (''accessKey'', JStr ''k''),
                  (''platformName'', JInt 5)])]"

text \<open>An iOS descriptor written in capitals, with a desktop platform beside it.\<close>

definition upper_ios_caps :: json where
  "upper_ios_caps =
     JObj [(''browserName'', JStr ''PW-WebKit''),
           (''LT:Options'',
            JObj [(''platformName'', JStr ''iOS''), (''user'', JStr ''u''),
                  (''accessKey'', JStr ''k''), (''platform'', JStr ''Windows 11'')])]"

text \<open>
  An inline text of 100000 opening brackets, and a parser that behaves on it as
  \<open>json.loads\<close> does: the text is no JSON, but the recursion limit is reached before
  the missing brackets are noticed. On any other text this parser raises JSONDecodeError.
\<close>

definition deep_nesting :: string where
  "deep_nesting = replicate 100000 (CHR ''['')"

definition loads_deep :: "string \<Rightarrow> parsed" where
  "loads_deep s = (if s = deep_nesting then ParseRaises RecursionError else JSONDecodeError)"

text \<open>The dict \<open>d\<close> with the key \<open>k\<close> taken out.\<close>

definition without :: "string \<Rightarrow> (string \<times> json) list \<Rightarrow> (string \<times> json) list" where
  "without k d = filter (\<lambda>kv. fst kv \<noteq> k) d"

text \<open>The findings of a state that are about the directory \<open>d\<close>.\<close>

definition errors_about :: "string \<Rightarrow> state \<Rightarrow> skill_error list" where
  "errors_about d st = filter (\<lambda>e. error_dir e = d) (errors st)"

definition warnings_about :: "string \<Rightarrow> state \<Rightarrow> skill_warning list" where
  "warnings_about d st = filter (\<lambda>w. warning_dir w = d) (warnings st)"

text \<open>Three repositories: one directory without a manifest; a skill with a manifest
  beside a directory without one, a skipped directory and a plain file; and a skill
  whose manifest cannot be read.\<close>

definition one_dir_repo :: repo where
  "one_dir_repo =
     \<lparr>listdir = [''my-skill''], isdir = (\<lambda>d. True), skill_md = (\<lambda>d. FileNotFound),
      reference_isdir = (\<lambda>d. False), playbook_exists = (\<lambda>d. False)\<rparr>"

definition sample_repo :: repo where
  "sample_repo =
     \<lparr>listdir = [''web-skill'', ''notes'', ''docs'', ''README.md''],
      isdir = (\<lambda>d. d \<noteq> ''README.md''),
      skill_md = (\<lambda>d. if d = ''web-skill''
                       then FileText (''---'' @ [CHR 0x0A] @ ''name: web'' @ [CHR 0x0A] @
                                      ''---'' @ [CHR 0x0A] @ ''See reference/playbook.md'')
                       else FileNotFound),
      reference_isdir = (\<lambda>d. d = ''web-skill''),
      playbook_exists = (\<lambda>d. d = ''web-skill'')\<rparr>"

definition unreadable_repo :: repo where
  "unreadable_repo =
     \<lparr>listdir = [''my-skill''], isdir = (\<lambda>d. True), skill_md = (\<lambda>d. Unreadable),
      reference_isdir = (\<lambda>d. False), playbook_exists = (\<lambda>d. False)\<rparr>"

section \<open>Properties of the capability-descriptor validator\<close>

lemmas caps_defs = validate_def check_browser_def check_unknown_keys_def check_auth_def
  check_mobile_def check_desktop_def check_recommendations_def get_def get_default_def
  keys_def py_not_def py_lower_def lower_char_def VALID_BROWSERS_def VALID_PLATFORMS_def
  VALID_MOBILE_PLATFORMS_def VALID_LT_OPTIONS_def

subsection \<open>What each rule can append\<close>

lemma check_browser_returns:
  "(\<exists>es. check_browser b = Inr es) \<longleftrightarrow> (py_not b \<or> hashable b)"
  by (auto simp: check_browser_def)

lemma check_browser_members:
  "check_browser b = Inr es \<Longrightarrow> set es \<subseteq> {MissingBrowserName, InvalidBrowserName b}"
  by (auto simp: check_browser_def split: if_splits)

lemma check_auth_members: "set (check_auth l) \<subseteq> {MissingUser, MissingAccessKey}"
  by (auto simp: check_auth_def Let_def)

lemma check_unknown_keys_members:
  "w \<in> set (check_unknown_keys set_iter l) \<Longrightarrow> \<exists>ks. w = UnknownLTOptionsKeys ks"
  by (auto simp: check_unknown_keys_def Let_def split: if_splits)

lemma check_recommendations_members:
  "set (check_recommendations l) \<subseteq> {ConsiderBuild, ConsiderVideo, ConsiderNetwork}"
  by (auto simp: check_recommendations_def)

lemma check_mobile_findings:
  assumes "check_mobile pn b l = Inr (es2, ws2)"
  shows "(MobileRequiresDeviceName \<in> set es2 \<longleftrightarrow> py_not (get l ''deviceName'')) \<and>
         (MobileRequiresPlatformVersion \<in> set es2 \<longleftrightarrow> py_not (get l ''platformVersion'')) \<and>
         (ws2 = (if py_not (get l ''isRealMobile'') then [IsRealMobileNotSet] else [])) \<and>
         (IosMustUseWebkit x \<in> set es2 \<longleftrightarrow>
            pn = ''ios'' \<and> b = JStr x \<and> x \<noteq> [] \<and>
            py_lower x \<noteq> ''pw-webkit'' \<and> py_lower x \<noteq> ''webkit'') \<and>
         DesktopRequiresPlatform \<notin> set es2 \<and> InvalidPlatform y \<notin> set es2"
  using assms
  by (auto simp: check_mobile_def Let_def split: if_splits json.splits)

subsection \<open>The two paths through \<open>validate\<close>\<close>

lemma map_of_without: "map_of (without k d) k' = (if k' = k then None else map_of d k')"
  by (induction d) (auto simp: without_def)

lemma validate_no_options:
  "py_not (get_default c ''LT:Options'' (JObj [])) \<Longrightarrow>
   validate set_iter (JObj c) =
     (case check_browser (get c ''browserName'') of
        Inl e \<Rightarrow> Inl e
      | Inr es \<Rightarrow> Inr (es @ [MissingLTOptions], []))"
  by (simp add: validate_def split: sum.splits)

lemma validate_mobile:
  assumes "map_of c ''LT:Options'' = Some (JObj l)" and "l \<noteq> []"
    and "map_of l ''platformName'' = Some (JStr p)"
    and "py_lower p = ''android'' \<or> py_lower p = ''ios''"
  shows "validate set_iter (JObj c) =
           (case check_browser (get c ''browserName'') of
              Inl e \<Rightarrow> Inl e
            | Inr errors0 \<Rightarrow>
                (case check_mobile (py_lower p) (get c ''browserName'') l of
                   Inl e \<Rightarrow> Inl e
                 | Inr (errors2, warnings2) \<Rightarrow>
                     Inr (errors0 @ check_auth l @ errors2,
                          check_unknown_keys set_iter l @ warnings2 @ check_recommendations l)))"
  using assms
  by (auto simp: validate_def get_default_def py_not_def VALID_MOBILE_PLATFORMS_def Let_def
           split: sum.splits)

subsection \<open>The descriptors of the specification\<close>

text \<open>
  C6. The descriptor with browser \<open>pw-webkit\<close> on iOS, with user, access key, device name
  and platform version, yields no error: \<open>validate\<close> returns the empty list, whatever the
  iteration order of sets, and the process exits with status 0 showing no error.
\<close>

theorem webkit_ios_no_errors:
  "validate set_iter ios_webkit_caps =
     Inr ([], [IsRealMobileNotSet, ConsiderBuild, ConsiderVideo, ConsiderNetwork]) \<and>
   fst (report_caps set_iter ios_webkit_caps) = 0 \<and>
   error_findings (snd (report_caps set_iter ios_webkit_caps)) = []"
  by (simp add: ios_webkit_caps_def report_caps_def caps_defs)

text \<open>
  C7. The descriptor with browser \<open>Chrome\<close> on iOS and neither device name nor platform
  version yields the three mobile errors together: missing device name, missing platform
  version and the iOS browser mismatch.
\<close>

theorem ios_chrome_three_errors:
  "validate set_iter ios_chrome_caps =
     Inr ([MobileRequiresDeviceName, MobileRequiresPlatformVersion, IosMustUseWebkit ''Chrome''],
          [IsRealMobileNotSet, ConsiderBuild, ConsiderVideo, ConsiderNetwork])"
  by (simp add: ios_chrome_caps_def caps_defs)

subsection \<open>The order of the unknown keys\<close>

text \<open>
  C4. The findings are not a function of the document alone: on a descriptor with the two
  unknown option keys \<open>foo\<close> and \<open>bar\<close>, a process whose set iterates \<open>foo\<close> first and one
  whose set iterates \<open>bar\<close> first print different unknown-keys warnings.
\<close>

theorem unknown_keys_order_varies:
  "validate (\<lambda>ks. ks) two_unknown_caps =
     Inr ([], [UnknownLTOptionsKeys [''foo'', ''bar''],
               ConsiderBuild, ConsiderVideo, ConsiderNetwork]) \<and>
   validate rev two_unknown_caps =
     Inr ([], [UnknownLTOptionsKeys [''bar'', ''foo''],
               ConsiderBuild, ConsiderVideo, ConsiderNetwork])"
  by (simp add: two_unknown_caps_def caps_defs)

subsection \<open>A missing or false \<open>LT:Options\<close>\<close>

text \<open>
  C5, as stated, fails where the browser-name rule raises: with a browser name that is a
  list and no \<open>LT:Options\<close>, \<open>validate\<close> raises TypeError, the missing-options error is
  never appended and the process ends with a traceback.
\<close>

theorem missing_options_counterexample:
  "array_browser_caps = JObj [(''browserName'', JArr [JStr ''Chrome''])] \<and>
   validate (\<lambda>ks. ks) array_browser_caps = Inl TypeError \<and>
   report_caps (\<lambda>ks. ks) array_browser_caps = (1, [TracebackLine TypeError])"
  by (simp add: array_browser_caps_def report_caps_def caps_defs)

text \<open>
  C5, amended. For every descriptor (a dict) without the key \<open>LT:Options\<close> whose browser
  name is absent, false or hashable, \<open>validate\<close> returns the errors of the browser-name
  rule followed by the missing-options error, and prints no warning: the browser-name
  rule has run, and no auth, mobile, desktop or recommendation rule has.
\<close>

theorem missing_options_stops:
  assumes "map_of c ''LT:Options'' = None"
    and "py_not (get c ''browserName'') \<or> hashable (get c ''browserName'')"
  shows "\<exists>es. check_browser (get c ''browserName'') = Inr es \<and>
              validate set_iter (JObj c) = Inr (es @ [MissingLTOptions], [])"
proof -
  from assms(2) obtain es where es: "check_browser (get c ''browserName'') = Inr es"
    using check_browser_returns by blast
  have "py_not (get_default c ''LT:Options'' (JObj []))"
    using assms(1) by (simp add: get_default_def py_not_def)
  then show ?thesis using es by (simp add: validate_no_options)
qed

theorem missing_options_stops_witness:
  "validate (\<lambda>ks. ks) (JObj [(''browserName'', JStr ''Opera'')])
     = Inr ([InvalidBrowserName (JStr ''Opera''), MissingLTOptions], [])"
  using missing_options_stops [of "[(''browserName'', JStr ''Opera'')]" "\<lambda>ks. ks"]
  by (simp add: check_browser_def get_def py_not_def VALID_BROWSERS_def)

text \<open>
  C9, as stated, fails in the same place: with \<open>LT:Options\<close> null and a browser name that
  is a dict, \<open>validate\<close> raises TypeError (as it does without the key) and emits no
  missing-options error.
\<close>

theorem falsy_options_counterexample:
  "null_options_caps =
     JObj [(''browserName'', JObj [(''name'', JStr ''Chrome'')]), (''LT:Options'', JNull)] \<and>
   py_not JNull \<and>
   validate (\<lambda>ks. ks) null_options_caps = Inl TypeError \<and>
   report_caps (\<lambda>ks. ks) null_options_caps = (1, [TracebackLine TypeError])"
  by (simp add: null_options_caps_def report_caps_def caps_defs)

text \<open>
  C9, amended. For every descriptor (a dict) whose \<open>LT:Options\<close> is present with a false
  value (an empty dict, null, false, zero, an empty string or list), \<open>validate\<close> behaves
  exactly as on the descriptor without the key, whether it returns or raises; and when
  the browser-name rule returns, the result is that rule's errors followed by the
  missing-options error, with no warning and no further rule.
\<close>

theorem falsy_options_as_absent:
  assumes "map_of c ''LT:Options'' = Some v" and "py_not v"
  shows "validate set_iter (JObj c) = validate set_iter (JObj (without ''LT:Options'' c)) \<and>
         (\<forall>es. check_browser (get c ''browserName'') = Inr es \<longrightarrow>
               validate set_iter (JObj c) = Inr (es @ [MissingLTOptions], []))"
proof -
  have a: "py_not (get_default c ''LT:Options'' (JObj []))"
    using assms by (simp add: get_default_def)
  have b: "py_not (get_default (without ''LT:Options'' c) ''LT:Options'' (JObj []))"
    by (simp add: get_default_def map_of_without py_not_def)
  have g: "get (without ''LT:Options'' c) ''browserName'' = get c ''browserName''"
    by (simp add: get_def map_of_without)
  show ?thesis
    by (simp add: validate_no_options [OF a] validate_no_options [OF b] g)
qed

theorem falsy_options_as_absent_witness:
  "validate (\<lambda>ks. ks) (JObj [(''browserName'', JStr ''Chrome''), (''LT:Options'', JObj [])])
     = validate (\<lambda>ks. ks) (JObj [(''browserName'', JStr ''Chrome'')]) \<and>
   validate (\<lambda>ks. ks) (JObj [(''browserName'', JStr ''Chrome''), (''LT:Options'', JObj [])])
     = Inr ([MissingLTOptions], [])"
  using falsy_options_as_absent
    [of "[(''browserName'', JStr ''Chrome''), (''LT:Options'', JObj [])]" "JObj []" "\<lambda>ks. ks"]
  by (simp add: without_def caps_defs)

subsection \<open>Mobile platforms\<close>

text \<open>
  C10, as stated, fails where the iOS rule raises: with the platform name \<open>iOS\<close> and a
  browser name that is \<open>true\<close>, \<open>browser.lower()\<close> raises AttributeError; the device-name
  and platform-version errors the mobile rules had appended are lost with the run.
\<close>

theorem mobile_rules_counterexample:
  "py_lower ''iOS'' = ''ios'' \<and>
   validate (\<lambda>ks. ks) ios_bool_browser_caps = Inl AttributeError \<and>
   report_caps (\<lambda>ks. ks) ios_bool_browser_caps = (1, [TracebackLine AttributeError])"
  by code_simp

text \<open>
  C10, amended. For every descriptor whose \<open>LT:Options\<close> is a non-empty dict with a
  platform name that lowercases to \<open>android\<close> or \<open>ios\<close>, and on which \<open>validate\<close> returns:
  the device-name and platform-version errors and the real-device warning are reported
  exactly when the field is absent or false; no desktop finding is reported; and the iOS
  mismatch is reported for \<open>x\<close> exactly when the platform lowercases to \<open>ios\<close> and the
  browser name is the non-empty string \<open>x\<close> whose lowercase is neither \<open>pw-webkit\<close> nor
  \<open>webkit\<close>.
\<close>

theorem mobile_rules_apply:
  assumes "map_of c ''LT:Options'' = Some (JObj l)" and "l \<noteq> []"
    and "map_of l ''platformName'' = Some (JStr p)"
    and "py_lower p = ''android'' \<or> py_lower p = ''ios''"
    and "validate set_iter (JObj c) = Inr (es, ws)"
  shows "(MobileRequiresDeviceName \<in> set es \<longleftrightarrow> py_not (get l ''deviceName'')) \<and>
         (MobileRequiresPlatformVersion \<in> set es \<longleftrightarrow> py_not (get l ''platformVersion'')) \<and>
         (IsRealMobileNotSet \<in> set ws \<longleftrightarrow> py_not (get l ''isRealMobile'')) \<and>
         (IosMustUseWebkit x \<in> set es \<longleftrightarrow>
            py_lower p = ''ios'' \<and> get c ''browserName'' = JStr x \<and> x \<noteq> [] \<and>
            py_lower x \<noteq> ''pw-webkit'' \<and> py_lower x \<noteq> ''webkit'') \<and>
         DesktopRequiresPlatform \<notin> set es \<and> InvalidPlatform y \<notin> set es"
proof -
  from assms(5) obtain errors0 es2 ws2 where
    b: "check_browser (get c ''browserName'') = Inr errors0" and
    m: "check_mobile (py_lower p) (get c ''browserName'') l = Inr (es2, ws2)" and
    es: "es = errors0 @ check_auth l @ es2" and
    ws: "ws = check_unknown_keys set_iter l @ ws2 @ check_recommendations l"
    unfolding validate_mobile [OF assms(1-4)] by (auto split: sum.splits)
  note f = check_mobile_findings [OF m]
  have e0: "set errors0 \<subseteq> {MissingBrowserName, InvalidBrowserName (get c ''browserName'')}"
    using check_browser_members [OF b] .
  have a: "set (check_auth l) \<subseteq> {MissingUser, MissingAccessKey}"
    by (rule check_auth_members)
  have u: "IsRealMobileNotSet \<notin> set (check_unknown_keys set_iter l)"
    using check_unknown_keys_members by fastforce
  have r: "IsRealMobileNotSet \<notin> set (check_recommendations l)"
    using check_recommendations_members by fastforce
  have 1: "MobileRequiresDeviceName \<in> set es \<longleftrightarrow> py_not (get l ''deviceName'')"
    using e0 a f[of x y] unfolding es by auto
  have 2: "MobileRequiresPlatformVersion \<in> set es \<longleftrightarrow> py_not (get l ''platformVersion'')"
    using e0 a f[of x y] unfolding es by auto
  have 3: "IsRealMobileNotSet \<in> set ws \<longleftrightarrow> py_not (get l ''isRealMobile'')"
    using u r f[of x y] unfolding ws by auto
  have 4: "IosMustUseWebkit x \<in> set es \<longleftrightarrow>
            py_lower p = ''ios'' \<and> get c ''browserName'' = JStr x \<and> x \<noteq> [] \<and>
            py_lower x \<noteq> ''pw-webkit'' \<and> py_lower x \<noteq> ''webkit''"
    using e0 a f[of x y] unfolding es by auto
  have 5: "DesktopRequiresPlatform \<notin> set es"
    using e0 a f[of x y] unfolding es by auto
  have 6: "InvalidPlatform y \<notin> set es"
    using e0 a f[of x y] unfolding es by auto
  from 1 2 3 4 5 6 show ?thesis by blast
qed

theorem mobile_rules_apply_witness:
  "validate (\<lambda>ks. ks) upper_ios_caps =
     Inr ([InvalidBrowserName (JStr ''PW-WebKit''),
           MobileRequiresDeviceName, MobileRequiresPlatformVersion],
          [IsRealMobileNotSet, ConsiderBuild, ConsiderVideo, ConsiderNetwork]) \<and>
   py_lower ''iOS'' = ''ios'' \<and> py_lower ''PW-WebKit'' = ''pw-webkit'' \<and>
   IosMustUseWebkit ''PW-WebKit'' \<notin>
     set [InvalidBrowserName (JStr ''PW-WebKit''),
          MobileRequiresDeviceName, MobileRequiresPlatformVersion] \<and>
   DesktopRequiresPlatform \<notin>
     set [InvalidBrowserName (JStr ''PW-WebKit''),
          MobileRequiresDeviceName, MobileRequiresPlatformVersion]"
proof -
  have v: "validate (\<lambda>ks. ks) upper_ios_caps =
     Inr ([InvalidBrowserName (JStr ''PW-WebKit''),
           MobileRequiresDeviceName, MobileRequiresPlatformVersion],
          [IsRealMobileNotSet, ConsiderBuild, ConsiderVideo, ConsiderNetwork])"
    by code_simp
  have li: "py_lower ''iOS'' = ''ios''" by code_simp
  have lw: "py_lower ''PW-WebKit'' = ''pw-webkit''" by code_simp
  have l: "py_lower ''iOS'' = ''android'' \<or> py_lower ''iOS'' = ''ios''"
    using li by simp
  have o: "map_of [(''browserName'', JStr ''PW-WebKit''),
           (''LT:Options'',
            JObj [(''platformName'', JStr ''iOS''), (''user'', JStr ''u''),
                  (''accessKey'', JStr ''k''), (''platform'', JStr ''Windows 11'')])] ''LT:Options''
        = Some (JObj [(''platformName'', JStr ''iOS''), (''user'', JStr ''u''),
                  (''accessKey'', JStr ''k''), (''platform'', JStr ''Windows 11'')])"
    by simp
  from mobile_rules_apply [OF o _ _ l v [unfolded upper_ios_caps_def],
        of "''PW-WebKit''" "JStr ''Windows 11''"]
  show ?thesis using v li lw by simp
qed

section \<open>Exit codes\<close>

lemma error_findings_append:
  "error_findings (xs @ ys) = error_findings xs @ error_findings ys"
  by (induction xs rule: error_findings.induct) simp_all

lemma warning_findings_append:
  "warning_findings (xs @ ys) = warning_findings xs @ warning_findings ys"
  by (induction xs rule: warning_findings.induct) simp_all

lemma error_findings_map_ErrorLine: "error_findings (map ErrorLine es) = es"
  by (induction es) simp_all

lemma error_findings_map_WarningLine: "error_findings (map WarningLine ws) = []"
  by (induction ws) simp_all

lemma warning_findings_map_WarningLine: "warning_findings (map WarningLine ws) = ws"
  by (induction ws) simp_all

lemma warning_findings_map_ErrorLine: "warning_findings (map ErrorLine es) = []"
  by (induction es) simp_all

lemmas findings_simps = error_findings_append warning_findings_append
  error_findings_map_ErrorLine error_findings_map_WarningLine
  warning_findings_map_WarningLine warning_findings_map_ErrorLine

lemma report_config_findings:
  "error_findings (snd (report_config content)) = fst (validate_config content) \<and>
   warning_findings (snd (report_config content)) = snd (validate_config content) \<and>
   fst (report_config content) = (if fst (validate_config content) = [] then 0 else 1)"
  by (cases "validate_config content") (simp add: report_config_def findings_simps)

lemma report_caps_findings:
  "validate set_iter caps = Inr (es, ws) \<Longrightarrow>
   error_findings (snd (report_caps set_iter caps)) = es \<and>
   warning_findings (snd (report_caps set_iter caps)) = ws \<and>
   fst (report_caps set_iter caps) = (if es = [] then 0 else 1)"
  by (simp add: report_caps_def findings_simps)

lemma main_skills_findings:
  "scan r (sort (listdir r)) initial = Inr st \<Longrightarrow>
   error_findings (snd (main_skills r)) = errors st \<and>
   warning_findings (snd (main_skills r)) = warnings st \<and>
   fst (main_skills r) = (if errors st = [] then 0 else 1)"
  by (simp add: main_skills_def findings_simps)

text \<open>
  C1, as stated, fails on a document whose rules raise: with a platform name that is a
  number, \<open>validate\<close> raises AttributeError, no error finding is produced, and the process
  ends with status 1.
\<close>

theorem exit_code_counterexample:
  "validate (\<lambda>ks. ks) number_platform_caps = Inl AttributeError \<and>
   error_findings (snd (report_caps (\<lambda>ks. ks) number_platform_caps)) = [] \<and>
   fst (report_caps (\<lambda>ks. ks) number_platform_caps) = 1"
  by code_simp

text \<open>
  C1, amended. For every document on which the rules return, the error findings shown
  are the errors the rules returned, and the exit code is 0 when there is none and 1
  when there is one, whatever the warnings: for every content of a configuration file,
  for every descriptor on which \<open>validate\<close> returns, and for every repository whose scan
  returns. A run whose rules raise ends with status 1 and a traceback.
\<close>

theorem exit_code_from_errors:
  "error_findings (snd (report_config content)) = fst (validate_config content) \<and>
   fst (report_config content) = (if fst (validate_config content) = [] then 0 else 1) \<and>
   (validate set_iter caps = Inr (es, ws) \<longrightarrow>
      error_findings (snd (report_caps set_iter caps)) = es \<and>
      fst (report_caps set_iter caps) = (if es = [] then 0 else 1)) \<and>
   (validate set_iter caps = Inl e \<longrightarrow>
      report_caps set_iter caps = (1, [TracebackLine e])) \<and>
   (scan r (sort (listdir r)) initial = Inr st \<longrightarrow>
      error_findings (snd (main_skills r)) = errors st \<and>
      fst (main_skills r) = (if errors st = [] then 0 else 1)) \<and>
   (scan r (sort (listdir r)) initial = Inl e' \<longrightarrow>
      main_skills r = (1, [BannerLine, TracebackLine e']))"
  using report_config_findings [of content] report_caps_findings [of set_iter caps es ws]
    main_skills_findings [of r st]
  by (auto simp: report_caps_def main_skills_def)

theorem exit_code_from_errors_witness:
  "fst (report_config four_part_config) = 0 \<and>
   fst (report_caps (\<lambda>ks. ks) two_unknown_caps) = 0 \<and>
   fst (report_caps (\<lambda>ks. ks) upper_ios_caps) = 1 \<and>
   report_caps (\<lambda>ks. ks) array_browser_caps = (1, [TracebackLine TypeError]) \<and>
   fst (main_skills sample_repo) = 1 \<and>
   main_skills unreadable_repo = (1, [BannerLine, TracebackLine ReadError])"
proof -
  have c: "fst (validate_config four_part_config) = []"
    by code_simp
  have v0: "validate (\<lambda>ks. ks) two_unknown_caps =
      Inr ([], [UnknownLTOptionsKeys [''foo'', ''bar''],
                ConsiderBuild, ConsiderVideo, ConsiderNetwork])"
    by code_simp
  have v1: "validate (\<lambda>ks. ks) upper_ios_caps =
     Inr ([InvalidBrowserName (JStr ''PW-WebKit''),
           MobileRequiresDeviceName, MobileRequiresPlatformVersion],
          [IsRealMobileNotSet, ConsiderBuild, ConsiderVideo, ConsiderNetwork])"
    by code_simp
  have v2: "validate (\<lambda>ks. ks) array_browser_caps = Inl TypeError"
    by code_simp
  have s1: "scan sample_repo (sort (listdir sample_repo)) initial =
     Inr \<lparr>errors = [MissingDescription ''web-skill''],
          warnings = [MissingLanguages ''web-skill'', MissingCategory ''web-skill''],
          skills_found = 1\<rparr>"
    by code_simp
  have s2: "scan unreadable_repo (sort (listdir unreadable_repo)) initial = Inl ReadError"
    by code_simp
  from exit_code_from_errors [where content = four_part_config and set_iter = "\<lambda>ks. ks"
        and caps = two_unknown_caps and r = sample_repo] c v0 s1
  have a: "fst (report_config four_part_config) = 0 \<and>
           fst (report_caps (\<lambda>ks. ks) two_unknown_caps) = 0 \<and>
           fst (main_skills sample_repo) = 1"
    by simp
  from exit_code_from_errors [where set_iter = "\<lambda>ks. ks" and caps = upper_ios_caps] v1
  have b: "fst (report_caps (\<lambda>ks. ks) upper_ios_caps) = 1"
    by simp
  from exit_code_from_errors [where set_iter = "\<lambda>ks. ks" and caps = array_browser_caps
        and r = unreadable_repo] v2 s2
  have d: "report_caps (\<lambda>ks. ks) array_browser_caps = (1, [TracebackLine TypeError]) \<and>
           main_skills unreadable_repo = (1, [BannerLine, TracebackLine ReadError])"
    by simp
  from a b d show ?thesis by simp
qed

section \<open>Input faults\<close>

text \<open>
  The faults \<open>main\<close> catches end the process with status 2 and only the fault's message,
  no finding: the result is fixed before \<open>validate\<close> is reached. They are the
  configuration file that is not found; and, for the capability descriptor, no argument
  at all, \<open>--inline\<close> with no JSON after it (the IndexError), an inline text on which
  the parser raises JSONDecodeError, a file that is not found and a file on whose text
  the parser raises JSONDecodeError.
\<close>

lemma caught_faults_exit_2:
  "(fs (config_path argv) = FileNotFound \<longrightarrow>
      main_config fs argv = (2, [FileNotFoundLine (config_path argv)])) \<and>
   (length argv < 2 \<longrightarrow> main_caps set_iter json_loads fs' argv = (2, [UsageLine])) \<and>
   (length argv = 2 \<and> argv ! 1 = ''--inline'' \<longrightarrow>
      main_caps set_iter json_loads fs' argv = (2, [ParseFailureLine])) \<and>
   (2 < length argv \<and> argv ! 1 = ''--inline'' \<and> json_loads (argv ! 2) = JSONDecodeError \<longrightarrow>
      main_caps set_iter json_loads fs' argv = (2, [ParseFailureLine])) \<and>
   (2 \<le> length argv \<and> argv ! 1 \<noteq> ''--inline'' \<and> fs' (argv ! 1) = FileNotFound \<longrightarrow>
      main_caps set_iter json_loads fs' argv = (2, [ParseFailureLine])) \<and>
   (2 \<le> length argv \<and> argv ! 1 \<noteq> ''--inline'' \<and> fs' (argv ! 1) = FileText t \<and>
    json_loads t = JSONDecodeError \<longrightarrow>
      main_caps set_iter json_loads fs' argv = (2, [ParseFailureLine]))"
  by (auto simp: main_config_def main_caps_def)

text \<open>
  The faults \<open>main\<close> does not catch end the process with status 1 and a traceback,
  again before \<open>validate\<close> is reached and with no finding.
\<close>

lemma uncaught_faults_exit_1:
  "(fs (config_path argv) = Unreadable \<longrightarrow>
      main_config fs argv = (1, [TracebackLine ReadError])) \<and>
   (2 < length argv \<and> argv ! 1 = ''--inline'' \<and> json_loads (argv ! 2) = ParseRaises e \<longrightarrow>
      main_caps set_iter json_loads fs' argv = (1, [TracebackLine e])) \<and>
   (2 \<le> length argv \<and> argv ! 1 \<noteq> ''--inline'' \<and> fs' (argv ! 1) = Unreadable \<longrightarrow>
      main_caps set_iter json_loads fs' argv = (1, [TracebackLine ReadError])) \<and>
   (2 \<le> length argv \<and> argv ! 1 \<noteq> ''--inline'' \<and> fs' (argv ! 1) = FileText t \<and>
    json_loads t = ParseRaises e \<longrightarrow>
      main_caps set_iter json_loads fs' argv = (1, [TracebackLine e]))"
  by (auto simp: main_config_def main_caps_def)

text \<open>
  C8. Not every input that is unreadable as JSON ends the process with status 2, as the
  claim and the script's docstring (2 = missing input / parse error) say. An inline text
  of 100000 opening brackets is no JSON, but \<open>json.loads\<close> raises RecursionError on it,
  which \<open>main\<close> does not catch: the process ends with a traceback and status 1. So does a
  capability file whose bytes do not decode. In both runs no finding is produced.
\<close>

theorem unparsable_input_exits_1:
  "loads_deep deep_nesting = ParseRaises RecursionError \<and>
   main_caps (\<lambda>ks. ks) loads_deep (\<lambda>p. FileNotFound)
       [''validate-capabilities.py'', ''--inline'', deep_nesting]
     = (1, [TracebackLine RecursionError]) \<and>
   main_caps (\<lambda>ks. ks) loads_deep (\<lambda>p. Unreadable) [''validate-capabilities.py'', ''caps.json'']
     = (1, [TracebackLine ReadError]) \<and>
   main_caps (\<lambda>ks. ks) loads_deep (\<lambda>p. FileText ''{'') [''validate-capabilities.py'', ''caps.json'']
     = (2, [ParseFailureLine])"
proof -
  have d: "deep_nesting \<noteq> ''{''"
    using Cons_replicate_eq [of "CHR ''{''" "[]" 100000 "CHR ''[''"]
    by (auto simp: deep_nesting_def)
  have i: "''caps.json'' \<noteq> ''--inline''"
    by simp
  show ?thesis
    using d i by (simp add: main_caps_def loads_deep_def)
qed

section \<open>Properties of the configuration-file validator\<close>

text \<open>
  C3. A cloud project name whose prefix has four parts is matched by the pattern, splits
  into four parts, and draws no error: the check is \<open>len(parts) < 3\<close>.
\<close>

theorem four_parts_no_error:
  "findall_projects four_part_config = [''chrome:120:Windows:11@lambdatest''] \<and>
   split_char (CHR '':'') (before_first ''chrome:120:Windows:11@lambdatest'' ''@lambdatest'')
     = [''chrome'', ''120'', ''Windows'', ''11''] \<and>
   fst (validate_config four_part_config) = []"
  by code_simp

section \<open>Properties of the skill-directory validator\<close>

subsection \<open>What a call leaves of the state\<close>

lemma about_add_error [simp]:
  "errors_about d' (add_error e st) =
     (if error_dir e = d' then errors_about d' st @ [e] else errors_about d' st)"
  "warnings_about d' (add_error e st) = warnings_about d' st"
  "skills_found (add_error e st) = skills_found st"
  by (simp_all add: errors_about_def warnings_about_def add_error_def)

lemma about_add_warning [simp]:
  "warnings_about d' (add_warning w st) =
     (if warning_dir w = d' then warnings_about d' st @ [w] else warnings_about d' st)"
  "errors_about d' (add_warning w st) = errors_about d' st"
  "skills_found (add_warning w st) = skills_found st"
  by (simp_all add: errors_about_def warnings_about_def add_warning_def)

lemma about_count [simp]:
  "errors_about d' (st\<lparr>skills_found := n\<rparr>) = errors_about d' st"
  "warnings_about d' (st\<lparr>skills_found := n\<rparr>) = warnings_about d' st"
  by (simp_all add: errors_about_def warnings_about_def)

lemma validate_frontmatter_frame:
  "d' \<noteq> d \<Longrightarrow>
   errors_about d' (snd (validate_frontmatter d content st)) = errors_about d' st \<and>
   warnings_about d' (snd (validate_frontmatter d content st)) = warnings_about d' st"
  by (simp add: validate_frontmatter_def Let_def split: option.splits)

lemma validate_frontmatter_count:
  "skills_found (snd (validate_frontmatter d content st)) = skills_found st"
  by (simp add: validate_frontmatter_def Let_def split: option.splits)

lemma validate_skill_frame:
  "validate_skill r d st = Inr st' \<Longrightarrow> d' \<noteq> d \<Longrightarrow>
   errors_about d' st' = errors_about d' st \<and> warnings_about d' st' = warnings_about d' st"
  by (auto simp: validate_skill_def Let_def validate_frontmatter_frame split: file_read.splits)

lemma validate_skill_count:
  "validate_skill r d st = Inr st' \<Longrightarrow> skill_md r d \<noteq> FileNotFound \<Longrightarrow>
   skills_found st' = Suc (skills_found st)"
  by (auto simp: validate_skill_def Let_def validate_frontmatter_count split: file_read.splits)

subsection \<open>The loop of \<open>main\<close>\<close>

lemma scan_frame:
  "scan r items st = Inr st' \<Longrightarrow> skill_md r d = FileNotFound \<Longrightarrow>
   errors_about d st' = errors_about d st \<and> warnings_about d st' = warnings_about d st"
proof (induction items arbitrary: st)
  case Nil
  then show ?case by simp
next
  case (Cons item items)
  show ?case
  proof (cases "scanned r item \<and> skill_md r item \<noteq> FileNotFound")
    case True
    with Cons.prems(1) obtain st1 where
      v: "validate_skill r item st = Inr st1" and s: "scan r items st1 = Inr st'"
      by (auto split: sum.splits)
    from True Cons.prems(2) have "d \<noteq> item" by auto
    with validate_skill_frame [OF v] Cons.IH [OF s Cons.prems(2)] show ?thesis by simp
  next
    case False
    with Cons.prems(1) have "scan r items st = Inr st'" by (auto split: if_splits)
    from Cons.IH [OF this Cons.prems(2)] show ?thesis .
  qed
qed

lemma scan_count:
  "scan r items st = Inr st' \<Longrightarrow>
   skills_found st' =
     skills_found st + length (filter (\<lambda>i. scanned r i \<and> skill_md r i \<noteq> FileNotFound) items)"
proof (induction items arbitrary: st)
  case Nil
  then show ?case by simp
next
  case (Cons item items)
  show ?case
  proof (cases "scanned r item \<and> skill_md r item \<noteq> FileNotFound")
    case True
    with Cons.prems obtain st1 where
      v: "validate_skill r item st = Inr st1" and s: "scan r items st1 = Inr st'"
      by (auto split: sum.splits)
    from validate_skill_count [OF v] True Cons.IH [OF s] show ?thesis by simp
  next
    case False
    with Cons.prems have "scan r items st = Inr st'" by (auto split: if_splits)
    from Cons.IH [OF this] False show ?thesis by auto
  qed
qed

text \<open>
  C2, as stated, fails in \<open>main\<close>: a scanned directory without SKILL.md draws no error at
  all, since \<open>main\<close> calls \<open>validate_skill\<close> only where the manifest exists (line 100).
\<close>

theorem missing_manifest_counterexample:
  "scanned one_dir_repo ''my-skill'' \<and> skill_md one_dir_repo ''my-skill'' = FileNotFound \<and>
   main_skills one_dir_repo =
     (0, [BannerLine, SkillsFoundLine 0, ErrorCountLine 0, WarningCountLine 0, ValidLine])"
  by code_simp

text \<open>
  C2, amended. \<open>validate_skill\<close>, called on a directory without SKILL.md, appends exactly
  one error, evaluates no other rule and leaves the count of skills as it is. In a run
  of \<open>main\<close> that returns, a directory without SKILL.md gets no finding at all, and the
  count of skills found is the number of scanned directories whose SKILL.md exists.
\<close>

theorem missing_manifest_skipped:
  "(skill_md r d = FileNotFound \<longrightarrow>
      validate_skill r d st = Inr (st\<lparr>errors := errors st @ [MissingSkillMd d]\<rparr>)) \<and>
   (scan r (sort (listdir r)) initial = Inr st' \<longrightarrow>
      (skill_md r d = FileNotFound \<longrightarrow> errors_about d st' = [] \<and> warnings_about d st' = []) \<and>
      skills_found st' =
        length (filter (\<lambda>i. scanned r i \<and> skill_md r i \<noteq> FileNotFound) (sort (listdir r))))"
proof -
  have a: "skill_md r d = FileNotFound \<longrightarrow>
      validate_skill r d st = Inr (st\<lparr>errors := errors st @ [MissingSkillMd d]\<rparr>)"
    by (simp add: validate_skill_def add_error_def)
  have i: "errors_about d initial = []" "warnings_about d initial = []" "skills_found initial = 0"
    by (simp_all add: initial_def errors_about_def warnings_about_def)
  show ?thesis using a scan_frame [of r "sort (listdir r)" initial st' d]
      scan_count [of r "sort (listdir r)" initial st'] i
    by auto
qed

theorem missing_manifest_skipped_witness:
  "skill_md sample_repo ''notes'' = FileNotFound \<and> scanned sample_repo ''notes'' \<and>
   validate_skill sample_repo ''notes'' initial =
     Inr (initial\<lparr>errors := errors initial @ [MissingSkillMd ''notes'']\<rparr>) \<and>
   scan sample_repo (sort (listdir sample_repo)) initial =
     Inr \<lparr>errors = [MissingDescription ''web-skill''],
          warnings = [MissingLanguages ''web-skill'', MissingCategory ''web-skill''],
          skills_found = 1\<rparr> \<and>
   errors_about ''notes''
     \<lparr>errors = [MissingDescription ''web-skill''],
      warnings = [MissingLanguages ''web-skill'', MissingCategory ''web-skill''],
      skills_found = 1\<rparr> = [] \<and>
   length (filter (\<lambda>i. scanned sample_repo i \<and> skill_md sample_repo i \<noteq> FileNotFound)
             (sort (listdir sample_repo))) = 1"
proof -
  have m: "skill_md sample_repo ''notes'' = FileNotFound"
    by code_simp
  have n: "scanned sample_repo ''notes''"
    by code_simp
  have s: "scan sample_repo (sort (listdir sample_repo)) initial =
     Inr \<lparr>errors = [MissingDescription ''web-skill''],
          warnings = [MissingLanguages ''web-skill'', MissingCategory ''web-skill''],
          skills_found = 1\<rparr>"
    by code_simp
  note t = missing_manifest_skipped [where r = sample_repo and d = "''notes''" and st = initial
        and st' = "\<lparr>errors = [MissingDescription ''web-skill''],
          warnings = [MissingLanguages ''web-skill'', MissingCategory ''web-skill''],
          skills_found = 1\<rparr>"]
  have a: "validate_skill sample_repo ''notes'' initial =
     Inr (initial\<lparr>errors := errors initial @ [MissingSkillMd ''notes'']\<rparr>)"
    using t m by blast
  have b: "errors_about ''notes''
     \<lparr>errors = [MissingDescription ''web-skill''],
      warnings = [MissingLanguages ''web-skill'', MissingCategory ''web-skill''],
      skills_found = 1\<rparr> = []"
    using t m s by blast
  have "skills_found
     \<lparr>errors = [MissingDescription ''web-skill''],
      warnings = [MissingLanguages ''web-skill'', MissingCategory ''web-skill''],
      skills_found = 1\<rparr> =
     length (filter (\<lambda>i. scanned sample_repo i \<and> skill_md sample_repo i \<noteq> FileNotFound)
               (sort (listdir sample_repo)))"
    using t s by blast
  then have c: "length (filter (\<lambda>i. scanned sample_repo i \<and> skill_md sample_repo i \<noteq> FileNotFound)
               (sort (listdir sample_repo))) = 1"
    by simp
  show ?thesis using m n a s b c by blast
qed

end
